theory Spec2Isabelle
  imports Complex_Main "HOL-Library.Sublist"
begin

section \<open>Values of the host language\<close>

text \<open>
  A string is the sequence of its UTF-16 code units, so \<open>length\<close> is the
  \<^verbatim>\<open>.length\<close> of the source. \<open>str\<close> writes an ASCII literal.
\<close>

type_synonym jsstring = "nat list"

definition str :: "string \<Rightarrow> jsstring" where
  "str s = map of_char s"

text \<open>
  A number is \<open>NaN\<close>, an infinity, or a finite value, read as the real number it
  denotes. Arithmetic on finite values is exact: the rounding of IEEE doubles and
  the sign of zero are not part of the model.
\<close>

datatype jsnum = NaN | NegInf | Fin real | PosInf

text \<open>
  The values a caller can pass: primitives and objects, an object being the list
  of its own properties. Functions, symbols and big integers are left out; the
  checks of the source treat them like any other non-string, non-number value.
\<close>

datatype jsval =
    JUndefined
  | JNull
  | JBool bool
  | JNum jsnum
  | JStr jsstring
  | JObj "(jsstring \<times> jsval) list"

datatype jstype = TUndefined | TObject | TBoolean | TNumber | TString

fun typeOf :: "jsval \<Rightarrow> jstype" where
  "typeOf JUndefined = TUndefined"
| "typeOf JNull = TObject"
| "typeOf (JBool b) = TBoolean"
| "typeOf (JNum n) = TNumber"
| "typeOf (JStr s) = TString"
| "typeOf (JObj fs) = TObject"

text \<open>\<open>truthy v\<close> is the outcome of \<^verbatim>\<open>!!v\<close>.\<close>

fun truthy :: "jsval \<Rightarrow> bool" where
  "truthy JUndefined = False"
| "truthy JNull = False"
| "truthy (JBool b) = b"
| "truthy (JNum n) = (n \<noteq> NaN \<and> n \<noteq> Fin 0)"
| "truthy (JStr s) = (s \<noteq> [])"
| "truthy (JObj fs) = True"

text \<open>
  Reading a property, as the destructuring
  \<^verbatim>\<open>const { name, description, price, category } = productData\<close> does: a
  property the object does not have reads as \<open>undefined\<close>. The keys of an
  object are distinct; the source reads properties only after it has checked that
  \<open>productData\<close> is an object.
\<close>

fun getProp :: "jsval \<Rightarrow> jsstring \<Rightarrow> jsval" where
  "getProp (JObj fs) k = (case map_of fs k of Some v \<Rightarrow> v | None \<Rightarrow> JUndefined)"
| "getProp v k = JUndefined"

text \<open>
  The string behind a value and the number behind a value. The source calls string
  methods and compares numbers only behind a \<^verbatim>\<open>typeof\<close> test, so the
  second equations are never reached.
\<close>

fun asString :: "jsval \<Rightarrow> jsstring" where
  "asString (JStr s) = s"
| "asString v = []"

fun asNumber :: "jsval \<Rightarrow> jsnum" where
  "asNumber (JNum n) = n"
| "asNumber v = NaN"

definition isNaN :: "jsnum \<Rightarrow> bool" where
  "isNaN n = (n = NaN)"

text \<open>The comparison \<^verbatim>\<open>a < b\<close> on numbers: false as soon as one side is NaN.\<close>

fun jsLess :: "jsnum \<Rightarrow> jsnum \<Rightarrow> bool" where
  "jsLess NaN b = False"
| "jsLess a NaN = False"
| "jsLess a NegInf = False"
| "jsLess NegInf b = True"
| "jsLess PosInf b = False"
| "jsLess (Fin x) PosInf = True"
| "jsLess (Fin x) (Fin y) = (x < y)"

definition jsGreater :: "jsnum \<Rightarrow> jsnum \<Rightarrow> bool" where
  "jsGreater a b = jsLess b a"

subsection \<open>String methods\<close>

text \<open>
  The code units \<^verbatim>\<open>String.prototype.trim\<close> strips: the white space and line
  terminators of the language (tab, line feed, vertical tab, form feed, carriage
  return, space, no-break space, U+1680, U+2000 to U+200A, U+2028, U+2029, U+202F,
  U+205F, U+3000 and U+FEFF).
\<close>

definition isWhiteSpace :: "nat \<Rightarrow> bool" where
  "isWhiteSpace c =
     (c \<in> set [9, 10, 11, 12, 13, 32, 160, 5760, 8232, 8233, 8239, 8287, 12288, 65279]
      \<or> (8192 \<le> c \<and> c \<le> 8202))"

definition trim :: "jsstring \<Rightarrow> jsstring" where
  "trim s = rev (dropWhile isWhiteSpace (rev (dropWhile isWhiteSpace s)))"

text \<open>\<open>str_includes s t\<close> is \<^verbatim>\<open>s.includes(t)\<close>: \<open>t\<close> occurs in \<open>s\<close> at some position.\<close>

fun str_includes :: "jsstring \<Rightarrow> jsstring \<Rightarrow> bool" where
  "str_includes [] t = (t = [])"
| "str_includes (c # cs) t = (prefix t (c # cs) \<or> str_includes cs t)"

section \<open>Validation helper\<close>

text \<open>The messages of \<^verbatim>\<open>validateProductData\<close>, in the order of the source.\<close>

definition msgDataRequired :: jsstring where
  "msgDataRequired = str ''Los datos del producto son requeridos''"

definition msgNameRequired :: jsstring where
  "msgNameRequired = str ''El nombre del producto es requerido''"

definition msgNameMin :: jsstring where
  "msgNameMin = str ''El nombre debe tener al menos 2 caracteres''"

definition msgNameMax :: jsstring where
  "msgNameMax = str ''El nombre no puede exceder 100 caracteres''"

definition msgDescriptionRequired :: jsstring where
  "msgDescriptionRequired = str ''La descripci'' @ [243] @ str ''n del producto es requerida''"

definition msgDescriptionMin :: jsstring where
  "msgDescriptionMin = str ''La descripci'' @ [243] @ str ''n debe tener al menos 10 caracteres''"

definition msgDescriptionMax :: jsstring where
  "msgDescriptionMax = str ''La descripci'' @ [243] @ str ''n no puede exceder 500 caracteres''"

definition msgPriceInvalid :: jsstring where
  "msgPriceInvalid = str ''El precio debe ser un n'' @ [250] @ str ''mero v'' @ [225] @ str ''lido''"

definition msgPriceNegative :: jsstring where
  "msgPriceNegative = str ''El precio no puede ser negativo''"

definition msgPriceMax :: jsstring where
  "msgPriceMax = str ''El precio no puede exceder $999,999.99''"

definition msgCategoryRequired :: jsstring where
  "msgCategoryRequired = str ''La categor'' @ [237] @ str ''a del producto es requerida''"

text \<open>
  The literal \<^verbatim>\<open>999999.99\<close> of the source denotes the double nearest to it,
  which lies just below the decimal.
\<close>

definition maxPrice :: real where
  "maxPrice = 4294967253050327 / 4294967296"

record validation =
  isValid :: bool
  errors :: "jsstring list"

text \<open>
  \<^verbatim>\<open>validateProductData\<close>: the array \<^verbatim>\<open>errors\<close> grows by one
  \<^verbatim>\<open>push\<close> per block; \<open>e0\<close> to \<open>e4\<close> are its successive contents.
\<close>

definition validateProductData :: "jsval \<Rightarrow> validation" where
  "validateProductData productData =
     (if \<not> truthy productData \<or> typeOf productData \<noteq> TObject then
        \<lparr>isValid = False, errors = [msgDataRequired]\<rparr>
      else
        let name = getProp productData (str ''name'');
            description = getProp productData (str ''description'');
            price = getProp productData (str ''price'');
            category = getProp productData (str ''category'');
            e0 = [];
            e1 = (if \<not> truthy name \<or> typeOf name \<noteq> TString
                      \<or> length (trim (asString name)) = 0
                  then e0 @ [msgNameRequired]
                  else if length (trim (asString name)) < 2 then e0 @ [msgNameMin]
                  else if length (trim (asString name)) > 100 then e0 @ [msgNameMax]
                  else e0);
            e2 = (if \<not> truthy description \<or> typeOf description \<noteq> TString
                      \<or> length (trim (asString description)) = 0
                  then e1 @ [msgDescriptionRequired]
                  else if length (trim (asString description)) < 10
                  then e1 @ [msgDescriptionMin]
                  else if length (trim (asString description)) > 500
                  then e1 @ [msgDescriptionMax]
                  else e1);
            e3 = (if typeOf price \<noteq> TNumber \<or> isNaN (asNumber price)
                  then e2 @ [msgPriceInvalid]
                  else if jsLess (asNumber price) (Fin 0) then e2 @ [msgPriceNegative]
                  else if jsGreater (asNumber price) (Fin maxPrice) then e2 @ [msgPriceMax]
                  else e2);
            e4 = (if \<not> truthy category \<or> typeOf category \<noteq> TString
                      \<or> length (trim (asString category)) = 0
                  then e3 @ [msgCategoryRequired]
                  else e3)
        in \<lparr>isValid = (length e4 = 0), errors = e4\<rparr>)"

subsection \<open>The rules of the data model, and the blocks of the validator\<close>

text \<open>
  The four form fields, and the word by which \<^verbatim>\<open>showValidationErrors\<close>
  recognises the messages of each.
\<close>

datatype field = FName | FDescription | FPrice | FCategory

fun fieldWord :: "field \<Rightarrow> jsstring" where
  "fieldWord FName = str ''nombre''"
| "fieldWord FDescription = str ''descripci'' @ [243] @ str ''n''"
| "fieldWord FPrice = str ''precio''"
| "fieldWord FCategory = str ''categor'' @ [237] @ str ''a''"

text \<open>
  The rules as the specification words them: name of trimmed length 2 to 100,
  description of trimmed length 10 to 500, price a number between 0 and the
  maximum, category not blank.
\<close>

definition nameRuleOk :: "jsval \<Rightarrow> bool" where
  "nameRuleOk v = (case v of JStr s \<Rightarrow> 2 \<le> length (trim s) \<and> length (trim s) \<le> 100 | _ \<Rightarrow> False)"

definition descriptionRuleOk :: "jsval \<Rightarrow> bool" where
  "descriptionRuleOk v = (case v of JStr s \<Rightarrow> 10 \<le> length (trim s) \<and> length (trim s) \<le> 500 | _ \<Rightarrow> False)"

definition priceRuleOk :: "jsval \<Rightarrow> bool" where
  "priceRuleOk v = (case v of JNum (Fin x) \<Rightarrow> 0 \<le> x \<and> x \<le> maxPrice | _ \<Rightarrow> False)"

definition categoryRuleOk :: "jsval \<Rightarrow> bool" where
  "categoryRuleOk v = (case v of JStr s \<Rightarrow> 0 < length (trim s) | _ \<Rightarrow> False)"

text \<open>
  The four blocks of \<^verbatim>\<open>validateProductData\<close>, each taken alone: what
  the block pushes for the value of its field.
\<close>

definition nameErrors :: "jsval \<Rightarrow> jsstring list" where
  "nameErrors name = (if \<not> truthy name \<or> typeOf name \<noteq> TString
                      \<or> length (trim (asString name)) = 0
                  then [msgNameRequired]
                  else if length (trim (asString name)) < 2 then [msgNameMin]
                  else if length (trim (asString name)) > 100 then [msgNameMax]
                  else [])"

definition descriptionErrors :: "jsval \<Rightarrow> jsstring list" where
  "descriptionErrors description = (if \<not> truthy description \<or> typeOf description \<noteq> TString
                      \<or> length (trim (asString description)) = 0
                  then [msgDescriptionRequired]
                  else if length (trim (asString description)) < 10
                  then [msgDescriptionMin]
                  else if length (trim (asString description)) > 500
                  then [msgDescriptionMax]
                  else [])"

definition priceErrors :: "jsval \<Rightarrow> jsstring list" where
  "priceErrors price = (if typeOf price \<noteq> TNumber \<or> isNaN (asNumber price)
                  then [msgPriceInvalid]
                  else if jsLess (asNumber price) (Fin 0) then [msgPriceNegative]
                  else if jsGreater (asNumber price) (Fin maxPrice) then [msgPriceMax]
                  else [])"

definition categoryErrors :: "jsval \<Rightarrow> jsstring list" where
  "categoryErrors category = (if \<not> truthy category \<or> typeOf category \<noteq> TString
                      \<or> length (trim (asString category)) = 0
                  then [msgCategoryRequired]
                  else [])"

text \<open>
  An object literal with the four product fields, as \<^verbatim>\<open>getFormData\<close>
  builds it.
\<close>

definition productObject :: "jsval \<Rightarrow> jsval \<Rightarrow> jsval \<Rightarrow> jsval \<Rightarrow> jsval" where
  "productObject name description price category =
     JObj [(str ''name'', name), (str ''description'', description),
           (str ''price'', price), (str ''category'', category)]"

section \<open>Remote store adapter\<close>

text \<open>
  What the adapter hands to the store: a document is the list of its fields in the
  order of the object literal, and \<open>ServerTimestamp\<close> is the sentinel that
  \<^verbatim>\<open>serverTimestamp()\<close> returns.
\<close>

datatype fieldValue = FString jsstring | FNumber jsnum | ServerTimestamp

type_synonym document = "(jsstring \<times> fieldValue) list"

definition COLLECTION_NAME :: jsstring where
  "COLLECTION_NAME = str ''productos''"

text \<open>
  The calls on the store, with the collection, the identifier and the document
  they carry: the three writes, the one-time read of \<^verbatim>\<open>getProductsOnce\<close>
  and the standing query of \<^verbatim>\<open>getAllProducts\<close>.
\<close>

datatype storeCall =
    AddDoc jsstring document
  | UpdateDoc jsstring jsstring document
  | DeleteDoc jsstring jsstring
  | GetDocs jsstring
  | OnSnapshot jsstring

text \<open>
  What an operation throws: \<open>Error m\<close> is \<^verbatim>\<open>new Error(m)\<close>, thrown by the
  adapter's own checks; \<open>StoreError c\<close> is the rejection of a store call, with the
  code of the provider. The \<^verbatim>\<open>catch\<close> blocks log and throw the same value
  again; logging is not modelled.
\<close>

datatype exn = Error jsstring | StoreError jsstring

text \<open>
  An operation yields the store calls it issued, in order, and what it returned or
  threw. The answer of the store to a call is a parameter of the operation
  (\<open>Inl\<close> a rejection code).
\<close>

record 'a outcome =
  calls :: "storeCall list"
  result :: "exn + 'a"

definition msgPriceNonNegative :: jsstring where
  "msgPriceNonNegative = msgPriceInvalid @ str '' mayor o igual a 0''"

definition msgIdRequired :: jsstring where
  "msgIdRequired = str ''El ID del producto es requerido''"

text \<open>
  \<^verbatim>\<open>parseFloat(price)\<close> on a value that is already a number: the number is
  printed and read back, which gives the same number (only the sign of a zero is
  lost, and the model has one zero).
\<close>

definition parseFloatNumber :: "jsnum \<Rightarrow> jsnum" where
  "parseFloatNumber n = n"

definition createProduct ::
  "(jsstring \<Rightarrow> document \<Rightarrow> jsstring + jsstring) \<Rightarrow> jsval \<Rightarrow> jsstring outcome" where
  "createProduct addDoc productData =
     (if \<not> truthy productData \<or> typeOf productData \<noteq> TObject then
        \<lparr>calls = [], result = Inl (Error msgDataRequired)\<rparr>
      else
        let name = getProp productData (str ''name'');
            description = getProp productData (str ''description'');
            price = getProp productData (str ''price'');
            category = getProp productData (str ''category'')
        in
          if \<not> truthy name \<or> typeOf name \<noteq> TString
             \<or> length (trim (asString name)) = 0 then
            \<lparr>calls = [], result = Inl (Error msgNameRequired)\<rparr>
          else if \<not> truthy description \<or> typeOf description \<noteq> TString
             \<or> length (trim (asString description)) = 0 then
            \<lparr>calls = [], result = Inl (Error msgDescriptionRequired)\<rparr>
          else if typeOf price \<noteq> TNumber \<or> jsLess (asNumber price) (Fin 0) then
            \<lparr>calls = [], result = Inl (Error msgPriceNonNegative)\<rparr>
          else if \<not> truthy category \<or> typeOf category \<noteq> TString
             \<or> length (trim (asString category)) = 0 then
            \<lparr>calls = [], result = Inl (Error msgCategoryRequired)\<rparr>
          else
            let productToSave =
                  [(str ''name'', FString (trim (asString name))),
                   (str ''description'', FString (trim (asString description))),
                   (str ''price'', FNumber (parseFloatNumber (asNumber price))),
                   (str ''category'', FString (trim (asString category))),
                   (str ''createdAt'', ServerTimestamp),
                   (str ''updatedAt'', ServerTimestamp)]
            in \<lparr>calls = [AddDoc COLLECTION_NAME productToSave],
                result = (case addDoc COLLECTION_NAME productToSave of
                            Inl code \<Rightarrow> Inl (StoreError code)
                          | Inr docId \<Rightarrow> Inr docId)\<rparr>)"

definition updateProduct ::
  "(jsstring \<Rightarrow> jsstring \<Rightarrow> document \<Rightarrow> jsstring + unit) \<Rightarrow> jsval \<Rightarrow> jsval \<Rightarrow> unit outcome"
  where
  "updateProduct updateDoc productId productData =
     (if \<not> truthy productId \<or> typeOf productId \<noteq> TString then
        \<lparr>calls = [], result = Inl (Error msgIdRequired)\<rparr>
      else if \<not> truthy productData \<or> typeOf productData \<noteq> TObject then
        \<lparr>calls = [], result = Inl (Error msgDataRequired)\<rparr>
      else
        let name = getProp productData (str ''name'');
            description = getProp productData (str ''description'');
            price = getProp productData (str ''price'');
            category = getProp productData (str ''category'')
        in
          if \<not> truthy name \<or> typeOf name \<noteq> TString
             \<or> length (trim (asString name)) = 0 then
            \<lparr>calls = [], result = Inl (Error msgNameRequired)\<rparr>
          else if \<not> truthy description \<or> typeOf description \<noteq> TString
             \<or> length (trim (asString description)) = 0 then
            \<lparr>calls = [], result = Inl (Error msgDescriptionRequired)\<rparr>
          else if typeOf price \<noteq> TNumber \<or> jsLess (asNumber price) (Fin 0) then
            \<lparr>calls = [], result = Inl (Error msgPriceNonNegative)\<rparr>
          else if \<not> truthy category \<or> typeOf category \<noteq> TString
             \<or> length (trim (asString category)) = 0 then
            \<lparr>calls = [], result = Inl (Error msgCategoryRequired)\<rparr>
          else
            let updateData =
                  [(str ''name'', FString (trim (asString name))),
                   (str ''description'', FString (trim (asString description))),
                   (str ''price'', FNumber (parseFloatNumber (asNumber price))),
                   (str ''category'', FString (trim (asString category))),
                   (str ''updatedAt'', ServerTimestamp)]
            in \<lparr>calls = [UpdateDoc COLLECTION_NAME (asString productId) updateData],
                result = (case updateDoc COLLECTION_NAME (asString productId) updateData of
                            Inl code \<Rightarrow> Inl (StoreError code)
                          | Inr u \<Rightarrow> Inr ())\<rparr>)"

definition deleteProduct ::
  "(jsstring \<Rightarrow> jsstring \<Rightarrow> jsstring + unit) \<Rightarrow> jsval \<Rightarrow> unit outcome" where
  "deleteProduct deleteDoc productId =
     (if \<not> truthy productId \<or> typeOf productId \<noteq> TString then
        \<lparr>calls = [], result = Inl (Error msgIdRequired)\<rparr>
      else
        \<lparr>calls = [DeleteDoc COLLECTION_NAME (asString productId)],
         result = (case deleteDoc COLLECTION_NAME (asString productId) of
                     Inl code \<Rightarrow> Inl (StoreError code)
                   | Inr u \<Rightarrow> Inr ())\<rparr>)"

subsection \<open>The checks shared by create and update\<close>

text \<open>
  The four field checks stand in \<^verbatim>\<open>createProduct\<close> and in
  \<^verbatim>\<open>updateProduct\<close> in the same words. \<open>fieldError\<close> is the message of the
  first check that throws, and \<open>savedFields\<close> is the part of the document both
  operations build from the fields.
\<close>

definition fieldError :: "jsval \<Rightarrow> jsstring option" where
  "fieldError productData =
     (let name = getProp productData (str ''name'');
          description = getProp productData (str ''description'');
          price = getProp productData (str ''price'');
          category = getProp productData (str ''category'')
      in
        if \<not> truthy name \<or> typeOf name \<noteq> TString
           \<or> length (trim (asString name)) = 0 then Some msgNameRequired
        else if \<not> truthy description \<or> typeOf description \<noteq> TString
           \<or> length (trim (asString description)) = 0 then Some msgDescriptionRequired
        else if typeOf price \<noteq> TNumber \<or> jsLess (asNumber price) (Fin 0)
        then Some msgPriceNonNegative
        else if \<not> truthy category \<or> typeOf category \<noteq> TString
           \<or> length (trim (asString category)) = 0 then Some msgCategoryRequired
        else None)"

definition savedFields :: "jsval \<Rightarrow> document" where
  "savedFields productData =
     [(str ''name'', FString (trim (asString (getProp productData (str ''name''))))),
      (str ''description'',
         FString (trim (asString (getProp productData (str ''description''))))),
      (str ''price'',
         FNumber (parseFloatNumber (asNumber (getProp productData (str ''price''))))),
      (str ''category'', FString (trim (asString (getProp productData (str ''category'')))))]"


text \<open>
  The requirement on the input of \<^verbatim>\<open>create\<close> in the words of the
  specification: a text field is present, a string, and not only white space; the
  price is a number and not negative.
\<close>

definition presentText :: "jsval \<Rightarrow> bool" where
  "presentText v = (case v of JStr s \<Rightarrow> \<not> list_all isWhiteSpace s | _ \<Rightarrow> False)"

definition nonNegativeNumber :: "jsval \<Rightarrow> bool" where
  "nonNegativeNumber v =
     (case v of JNum (Fin x) \<Rightarrow> 0 \<le> x | JNum PosInf \<Rightarrow> True | _ \<Rightarrow> False)"

definition wellFormed :: "jsval \<Rightarrow> bool" where
  "wellFormed productData =
     (typeOf productData = TObject \<and> truthy productData
      \<and> presentText (getProp productData (str ''name''))
      \<and> presentText (getProp productData (str ''description''))
      \<and> nonNegativeNumber (getProp productData (str ''price''))
      \<and> presentText (getProp productData (str ''category'')))"

section \<open>Presentation helpers\<close>

text \<open>
  A record of the local mirror, as the subscription delivers it: the identifier and
  the fields of the document. The helpers below read the name, the description, the
  price and the category; whatever else a document holds rides in the extension of
  the record.
\<close>

record product =
  p_id :: jsstring
  p_name :: jsstring
  p_description :: jsstring
  p_price :: jsnum
  p_category :: jsstring

text \<open>
  \<^verbatim>\<open>String.prototype.toLowerCase\<close> is the lower-casing of the language, with
  the case tables of Unicode behind it. The functions that call it take it as the
  parameter \<open>toLowerCase\<close>. \<open>toLowerCaseAscii\<close> is what it does on strings of
  Basic Latin code units, and serves to evaluate the functions on such strings.
\<close>

definition toLowerCaseAscii :: "jsstring \<Rightarrow> jsstring" where
  "toLowerCaseAscii s = map (\<lambda>c. if 65 \<le> c \<and> c \<le> 90 then c + 32 else c) s"

definition searchProducts ::
  "(jsstring \<Rightarrow> jsstring) \<Rightarrow> jsval \<Rightarrow> 'a product_scheme list \<Rightarrow> 'a product_scheme list"
  where
  "searchProducts toLowerCase searchText products =
     (if \<not> truthy searchText \<or> typeOf searchText \<noteq> TString then products
      else
        let searchLower = trim (toLowerCase (asString searchText))
        in filter (\<lambda>product.
              str_includes (toLowerCase (p_name product)) searchLower \<or>
              str_includes (toLowerCase (p_description product)) searchLower \<or>
              str_includes (toLowerCase (p_category product)) searchLower) products)"

text \<open>
  The reading of the search in the specification: the text is a case-insensitive
  substring of a field when the lower-cased text occurs in the lower-cased field.
\<close>

definition caseInsensitiveSubstring ::
  "(jsstring \<Rightarrow> jsstring) \<Rightarrow> jsstring \<Rightarrow> jsstring \<Rightarrow> bool" where
  "caseInsensitiveSubstring toLowerCase text fld =
     str_includes (toLowerCase fld) (toLowerCase text)"

text \<open>
  What the lower-casing of the language does to white space: a string of white
  space only stays one (it has no cased letter).
\<close>

definition keepsWhiteSpace :: "(jsstring \<Rightarrow> jsstring) \<Rightarrow> bool" where
  "keepsWhiteSpace toLowerCase =
     (\<forall>s. list_all isWhiteSpace s \<longrightarrow> list_all isWhiteSpace (toLowerCase s))"

subsection \<open>Statistics\<close>

text \<open>Addition and division of numbers, exact on finite values.\<close>

fun jsAdd :: "jsnum \<Rightarrow> jsnum \<Rightarrow> jsnum" where
  "jsAdd NaN b = NaN"
| "jsAdd a NaN = NaN"
| "jsAdd PosInf NegInf = NaN"
| "jsAdd NegInf PosInf = NaN"
| "jsAdd PosInf b = PosInf"
| "jsAdd a PosInf = PosInf"
| "jsAdd NegInf b = NegInf"
| "jsAdd a NegInf = NegInf"
| "jsAdd (Fin x) (Fin y) = Fin (x + y)"

fun jsDiv :: "jsnum \<Rightarrow> jsnum \<Rightarrow> jsnum" where
  "jsDiv NaN b = NaN"
| "jsDiv a NaN = NaN"
| "jsDiv (Fin x) (Fin y) =
     (if y = 0 then (if x = 0 then NaN else if 0 < x then PosInf else NegInf)
      else Fin (x / y))"
| "jsDiv (Fin x) b = Fin 0"
| "jsDiv PosInf (Fin y) = (if y < 0 then NegInf else PosInf)"
| "jsDiv NegInf (Fin y) = (if y < 0 then PosInf else NegInf)"
| "jsDiv a b = NaN"

text \<open>
  \<^verbatim>\<open>stats.categories\<close> starts as the object literal \<^verbatim>\<open>{}\<close>. Its own
  properties are a map from keys to numbers. Reading a key that is not an own
  property finds what the object inherits from \<^verbatim>\<open>Object.prototype\<close>: under the
  names below a function (under \<^verbatim>\<open>__proto__\<close> the prototype object itself),
  which is truthy and which \<^verbatim>\<open>++\<close> converts to NaN; under any other name
  \<open>undefined\<close>.
\<close>

definition objectPrototypeKeys :: "jsstring list" where
  "objectPrototypeKeys =
     [str ''constructor'', str ''hasOwnProperty'', str ''isPrototypeOf'',
      str ''propertyIsEnumerable'', str ''toLocaleString'', str ''toString'',
      str ''valueOf'', str ''__proto__'', str ''__defineGetter__'',
      str ''__defineSetter__'', str ''__lookupGetter__'', str ''__lookupSetter__'']"

text \<open>
  The body of the \<^verbatim>\<open>if\<close> in the loop. When the key is an own property with
  a truthy value, \<^verbatim>\<open>++\<close> adds one. When the truthy value is inherited,
  \<^verbatim>\<open>++\<close> computes NaN and assigns it, which makes an own property, except
  under \<^verbatim>\<open>__proto__\<close>, whose setter ignores a number. Otherwise the key is
  set to 1.
\<close>

definition countCategory :: "(jsstring \<rightharpoonup> jsnum) \<Rightarrow> jsstring \<Rightarrow> (jsstring \<rightharpoonup> jsnum)" where
  "countCategory cats key =
     (case cats key of
        Some n \<Rightarrow> if truthy (JNum n) then cats(key \<mapsto> jsAdd n (Fin 1)) else cats(key \<mapsto> Fin 1)
      | None \<Rightarrow>
          if key \<in> set objectPrototypeKeys
          then (if key = str ''__proto__'' then cats else cats(key \<mapsto> NaN))
          else cats(key \<mapsto> Fin 1))"

record stats =
  total :: nat
  averagePrice :: jsnum
  categories :: "jsstring \<rightharpoonup> jsnum"
  totalValue :: jsnum

text \<open>
  One round of the \<^verbatim>\<open>forEach\<close>, on the variables \<^verbatim>\<open>totalPrice\<close>,
  \<^verbatim>\<open>totalValue\<close> (here \<open>totalValue'\<close>, the plain name being the field of
  the result) and \<^verbatim>\<open>stats.categories\<close>.
\<close>

definition statsStep ::
  "jsnum \<times> jsnum \<times> (jsstring \<rightharpoonup> jsnum) \<Rightarrow> 'a product_scheme
   \<Rightarrow> jsnum \<times> jsnum \<times> (jsstring \<rightharpoonup> jsnum)" where
  "statsStep acc product =
     (case acc of (totalPrice, totalValue', cats) \<Rightarrow>
        (jsAdd totalPrice (p_price product), jsAdd totalValue' (p_price product),
         countCategory cats (p_category product)))"

text \<open>
  \<^verbatim>\<open>getProductStats\<close>; the argument \<open>None\<close> stands for a value that is not
  an array.
\<close>

definition getProductStats :: "'a product_scheme list option \<Rightarrow> stats" where
  "getProductStats arg =
     (case arg of
        None \<Rightarrow> \<lparr>total = 0, averagePrice = Fin 0, categories = Map.empty, totalValue = Fin 0\<rparr>
      | Some products \<Rightarrow>
          if length products = 0 then
            \<lparr>total = length products, averagePrice = Fin 0, categories = Map.empty,
             totalValue = Fin 0\<rparr>
          else
            (case foldl statsStep (Fin 0, Fin 0, Map.empty) products of
               (totalPrice, totalValue', cats) \<Rightarrow>
                 \<lparr>total = length products,
                  averagePrice = jsDiv totalPrice (Fin (real (length products))),
                  categories = cats,
                  totalValue = totalValue'\<rparr>))"

section \<open>UI controller\<close>

text \<open>
  The module-level variables of the controller. \<open>unsubscribeProducts\<close> is
  \<open>None\<close> for \<^verbatim>\<open>null\<close> and otherwise the handle of a subscription;
  \<open>pendingTimers\<close> is not a variable of the source: it counts the callbacks
  handed to \<^verbatim>\<open>setTimeout\<close> that have not run yet.
\<close>

record appState =
  isEditing :: bool
  currentEditId :: jsval
  allProducts :: "product list"
  unsubscribeProducts :: "nat option"
  reconnectAttempts :: nat
  pendingTimers :: nat


definition initialState :: appState where
  "initialState =
     \<lparr>isEditing = False, currentEditId = JNull, allProducts = [],
      unsubscribeProducts = None, reconnectAttempts = 0, pendingTimers = 0\<rparr>"

text \<open>
  What the controller does to the page, the timers and the adapter, as a list of
  effects in the order of execution. A template literal is kept as its template
  and its arguments.
\<close>

datatype toastType = TSuccess | TError | TWarning | TInfo

datatype toastText =
    Text jsstring
  | ErrorPrefix exn
  | Reconnecting nat nat
  | LoadFailed jsstring

datatype effect =
    PreventDefault
  | ShowFieldError field jsstring
  | ShowToast toastText toastType
  | SetSubmitButtonLoading bool
  | CallCreateProduct jsval
  | CallUpdateProduct jsval jsval
  | Store storeCall
  | FormReset
  | ClearAllFieldErrors
  | RenderCreateMode
  | SetTimeout nat
  | Unsubscribe nat
  | CallGetAllProducts
  | ShowPermissionError
  | UpdateLoadingState bool
  | ShowEmptyState
  | RenderProducts "product list"

definition msgFixErrors :: jsstring where
  "msgFixErrors = str ''Por favor corrige los errores en el formulario''"

definition msgUpdated :: jsstring where
  "msgUpdated = str ''Producto actualizado exitosamente''"

definition msgCreated :: jsstring where
  "msgCreated = str ''Producto creado exitosamente''"





subsection \<open>The form\<close>

text \<open>
  The values of the four inputs. \<^verbatim>\<open>parseFloat\<close> on the text of the price
  input is the parser of the language, a parameter here.
\<close>

record formInputs =
  nameInput :: jsstring
  descriptionInput :: jsstring
  priceInput :: jsstring
  categorySelect :: jsstring

definition getFormData :: "(jsstring \<Rightarrow> jsnum) \<Rightarrow> formInputs \<Rightarrow> jsval" where
  "getFormData parseFloat form =
     productObject (JStr (nameInput form)) (JStr (descriptionInput form))
       (JNum (parseFloat (priceInput form))) (JStr (categorySelect form))"

text \<open>
  \<^verbatim>\<open>showValidationErrors\<close>: each message goes to the first field whose word
  its lower-cased text includes, and to none when it includes no such word.
\<close>

definition annotate :: "(jsstring \<Rightarrow> jsstring) \<Rightarrow> jsstring \<Rightarrow> effect list" where
  "annotate toLowerCase error =
     (if str_includes (toLowerCase error) (fieldWord FName) then [ShowFieldError FName error]
      else if str_includes (toLowerCase error) (fieldWord FDescription)
      then [ShowFieldError FDescription error]
      else if str_includes (toLowerCase error) (fieldWord FPrice)
      then [ShowFieldError FPrice error]
      else if str_includes (toLowerCase error) (fieldWord FCategory)
      then [ShowFieldError FCategory error]
      else [])"

definition showValidationErrors :: "(jsstring \<Rightarrow> jsstring) \<Rightarrow> jsstring list \<Rightarrow> effect list" where
  "showValidationErrors toLowerCase errs =
     concat (map (annotate toLowerCase) errs) @ [ShowToast (Text msgFixErrors) TError]"

definition exitEditMode :: "appState \<Rightarrow> appState \<times> effect list" where
  "exitEditMode st = (st\<lparr>isEditing := False, currentEditId := JNull\<rparr>, [RenderCreateMode])"

definition clearForm :: "appState \<Rightarrow> appState \<times> effect list" where
  "clearForm st =
     (case exitEditMode st of (st', es) \<Rightarrow> (st', [FormReset, ClearAllFieldErrors] @ es))"

text \<open>
  \<^verbatim>\<open>handleFormSubmit\<close>. The early \<^verbatim>\<open>return\<close> of the invalid case and
  the \<^verbatim>\<open>catch\<close> both run the \<^verbatim>\<open>finally\<close> block, which resets the
  submit button.
\<close>

definition handleFormSubmit ::
  "(jsstring \<Rightarrow> jsstring) \<Rightarrow> (jsstring \<Rightarrow> jsnum) \<Rightarrow>
   (jsstring \<Rightarrow> document \<Rightarrow> jsstring + jsstring) \<Rightarrow>
   (jsstring \<Rightarrow> jsstring \<Rightarrow> document \<Rightarrow> jsstring + unit) \<Rightarrow>
   appState \<Rightarrow> formInputs \<Rightarrow> appState \<times> effect list" where
  "handleFormSubmit toLowerCase parseFloat addDoc updateDoc st form =
     (let formData = getFormData parseFloat form;
          validation = validateProductData formData
      in
        if \<not> isValid validation then
          (st, [PreventDefault] @ showValidationErrors toLowerCase (errors validation)
               @ [SetSubmitButtonLoading False])
        else if isEditing st then
          (let r = updateProduct updateDoc (currentEditId st) formData;
               before = [PreventDefault, SetSubmitButtonLoading True,
                         CallUpdateProduct (currentEditId st) formData] @ map Store (calls r)
           in case result r of
                Inr u \<Rightarrow>
                  (case exitEditMode st of (st', es) \<Rightarrow>
                     (st', before @ [ShowToast (Text msgUpdated) TSuccess] @ es
                           @ [SetSubmitButtonLoading False]))
              | Inl e \<Rightarrow>
                  (st, before @ [ShowToast (ErrorPrefix e) TError, SetSubmitButtonLoading False]))
        else
          (let r = createProduct addDoc formData;
               before = [PreventDefault, SetSubmitButtonLoading True,
                         CallCreateProduct formData] @ map Store (calls r)
           in case result r of
                Inr docId \<Rightarrow>
                  (case clearForm st of (st', es) \<Rightarrow>
                     (st', before @ [ShowToast (Text msgCreated) TSuccess] @ es
                           @ [SetSubmitButtonLoading False]))
              | Inl e \<Rightarrow>
                  (st, before @ [ShowToast (ErrorPrefix e) TError, SetSubmitButtonLoading False])))"

text \<open>The effects that reach the remote adapter or the store.\<close>

fun isRemote :: "effect \<Rightarrow> bool" where
  "isRemote (CallCreateProduct d) = True"
| "isRemote (CallUpdateProduct i d) = True"
| "isRemote (Store c) = True"
| "isRemote e = False"

text \<open>
  What the lower-casing of the language does to the messages of the validator,
  which hold Basic Latin letters and letters that are lower case already: it
  lower-cases the Basic Latin capitals and nothing else.
\<close>

definition validatorMessages :: "jsstring list" where
  "validatorMessages =
     [msgNameRequired, msgNameMin, msgNameMax, msgDescriptionRequired, msgDescriptionMin,
      msgDescriptionMax, msgPriceInvalid, msgPriceNegative, msgPriceMax, msgCategoryRequired]"

definition lowersMessages :: "(jsstring \<Rightarrow> jsstring) \<Rightarrow> bool" where
  "lowersMessages toLowerCase =
     list_all (\<lambda>m. toLowerCase m = toLowerCaseAscii m) validatorMessages"

subsection \<open>The subscription and the reconnect sequence\<close>








section \<open>Notions of the statements, and sample inputs\<close>

text \<open>
  The minimally valid record of the specification, two records that break one
  rule each, and stores that answer every call in the same way.
\<close>

definition minimalProduct :: jsval where
  "minimalProduct = productObject (JStr (str ''AB'')) (JStr (str ''0123456789''))
     (JNum (Fin 0)) (JStr (str ''x''))"

definition blankNameProduct :: jsval where
  "blankNameProduct = productObject (JStr (str ''  '')) (JStr (str ''0123456789''))
     (JNum (Fin 0)) (JStr (str ''x''))"

definition nanPriceProduct :: jsval where
  "nanPriceProduct = productObject (JStr (str ''AB'')) (JStr (str ''0123456789''))
     (JNum NaN) (JStr (str ''x''))"

definition acceptingAddDoc :: "jsstring \<Rightarrow> document \<Rightarrow> jsstring + jsstring" where
  "acceptingAddDoc c d = Inr (str ''doc1'')"

definition acceptingUpdateDoc :: "jsstring \<Rightarrow> jsstring \<Rightarrow> document \<Rightarrow> jsstring + unit" where
  "acceptingUpdateDoc c i d = Inr ()"


text \<open>
  For the statement of the statistics: the finite numbers and their values, and
  the count map of a list of categories, which gives each category that occurs the
  number of its occurrences.
\<close>

definition isFinite :: "jsnum \<Rightarrow> bool" where
  "isFinite n = (case n of Fin x \<Rightarrow> True | _ \<Rightarrow> False)"

fun realOf :: "jsnum \<Rightarrow> real" where
  "realOf (Fin x) = x"
| "realOf n = 0"

definition countMap :: "jsstring list \<Rightarrow> (jsstring \<rightharpoonup> jsnum)" where
  "countMap ks k = (if k \<in> set ks then Some (Fin (real (count_list ks k))) else None)"

text \<open>A record with a given price and category, and one for the search.\<close>

definition item :: "real \<Rightarrow> string \<Rightarrow> product" where
  "item x c = \<lparr>p_id = str ''p'', p_name = str ''AB'', p_description = str ''0123456789'',
               p_price = Fin x, p_category = str c\<rparr>"

definition mesa :: product where
  "mesa = \<lparr>p_id = str ''p1'', p_name = str ''Mesa'', p_description = str ''Mesa de roble'',
            p_price = Fin 10, p_category = str ''Hogar''\<rparr>"

text \<open>
  A parser for the price input that knows the texts of the examples, a form whose
  four inputs all break a rule, and the controller while it edits a record.
\<close>

definition sampleParseFloat :: "jsstring \<Rightarrow> jsnum" where
  "sampleParseFloat s =
     (if s = str ''0'' then Fin 0 else if s = str ''10'' then Fin 10 else NaN)"

definition blankForm :: formInputs where
  "blankForm = \<lparr>nameInput = [], descriptionInput = str ''012345678'',
                 priceInput = str ''abc'', categorySelect = []\<rparr>"

definition editingState :: appState where
  "editingState = initialState\<lparr>isEditing := True, currentEditId := JStr (str ''p1'')\<rparr>"




section \<open>Properties of the validator\<close>

lemma push_both: "(if c then e @ x else e @ y) = e @ (if c then x else y)"
  by simp

lemma push_one: "(if c then e @ x else e) = e @ (if c then x else [])"
  by simp

lemma validate_object:
  "validateProductData (JObj fs) =
     (let es = nameErrors (getProp (JObj fs) (str ''name'')) @
               descriptionErrors (getProp (JObj fs) (str ''description'')) @
               priceErrors (getProp (JObj fs) (str ''price'')) @
               categoryErrors (getProp (JObj fs) (str ''category''))
      in \<lparr>isValid = (es = []), errors = es\<rparr>)"
  unfolding validateProductData_def push_both push_one nameErrors_def [symmetric]
    descriptionErrors_def [symmetric] priceErrors_def [symmetric]
    categoryErrors_def [symmetric]
  by (simp add: Let_def)

lemma validate_not_object:
  "\<not> truthy pd \<or> typeOf pd \<noteq> TObject \<Longrightarrow>
   validateProductData pd = \<lparr>isValid = False, errors = [msgDataRequired]\<rparr>"
  unfolding validateProductData_def by simp

lemma isValid_errors:
  "isValid (validateProductData pd) = (errors (validateProductData pd) = [])"
proof (cases "\<not> truthy pd \<or> typeOf pd \<noteq> TObject")
  case True
  then show ?thesis by (simp add: validate_not_object)
next
  case False
  then obtain fs where "pd = JObj fs" by (cases pd) auto
  then show ?thesis by (simp add: validate_object Let_def)
qed

lemma trim_Nil [simp]: "trim [] = []"
  by (simp add: trim_def)

lemma trim_empty_iff: "trim s = [] \<longleftrightarrow> (\<forall>c\<in>set s. isWhiteSpace c)"
proof -
  have "trim s = [] \<longleftrightarrow> (\<forall>x\<in>set (dropWhile isWhiteSpace s). isWhiteSpace x)"
    by (simp add: trim_def dropWhile_eq_Nil_conv)
  also have "\<dots> \<longleftrightarrow> dropWhile isWhiteSpace s = []"
  proof
    assume a: "\<forall>x\<in>set (dropWhile isWhiteSpace s). isWhiteSpace x"
    show "dropWhile isWhiteSpace s = []"
    proof (rule ccontr)
      assume n: "dropWhile isWhiteSpace s \<noteq> []"
      then have "\<not> isWhiteSpace (hd (dropWhile isWhiteSpace s))" by (rule hd_dropWhile)
      moreover have "hd (dropWhile isWhiteSpace s) \<in> set (dropWhile isWhiteSpace s)"
        using n by simp
      ultimately show False using a by blast
    qed
  qed (auto dest: set_dropWhileD)
  also have "\<dots> \<longleftrightarrow> (\<forall>c\<in>set s. isWhiteSpace c)"
    by (simp add: dropWhile_eq_Nil_conv)
  finally show ?thesis .
qed

lemma mark_name:
  "str_includes msgNameRequired (fieldWord FName)"
  "str_includes msgNameMin (fieldWord FName)"
  "str_includes msgNameMax (fieldWord FName)"
  by (simp_all add: msgNameRequired_def msgNameMin_def msgNameMax_def str_def)

lemma mark_description:
  "str_includes msgDescriptionRequired (fieldWord FDescription)"
  "str_includes msgDescriptionMin (fieldWord FDescription)"
  "str_includes msgDescriptionMax (fieldWord FDescription)"
  by (simp_all add: msgDescriptionRequired_def msgDescriptionMin_def msgDescriptionMax_def str_def)

lemma mark_price:
  "str_includes msgPriceInvalid (fieldWord FPrice)"
  "str_includes msgPriceNegative (fieldWord FPrice)"
  "str_includes msgPriceMax (fieldWord FPrice)"
  by (simp_all add: msgPriceInvalid_def msgPriceNegative_def msgPriceMax_def str_def)

lemma mark_category:
  "str_includes msgCategoryRequired (fieldWord FCategory)"
  by (simp add: msgCategoryRequired_def str_def)

lemma nameErrors_ok: "nameErrors v = [] \<longleftrightarrow> nameRuleOk v"
  unfolding nameErrors_def nameRuleOk_def by (cases v) auto

lemma nameErrors_bad:
  assumes "\<not> nameRuleOk v"
  shows "\<exists>m. nameErrors v = [m] \<and> str_includes m (fieldWord FName)"
proof -
  have "nameErrors v = [msgNameRequired] \<or> nameErrors v = [msgNameMin]
        \<or> nameErrors v = [msgNameMax]"
    using assms unfolding nameErrors_def nameRuleOk_def by (cases v) auto
  then show ?thesis using mark_name by auto
qed

lemma descriptionErrors_ok: "descriptionErrors v = [] \<longleftrightarrow> descriptionRuleOk v"
  unfolding descriptionErrors_def descriptionRuleOk_def by (cases v) auto

lemma descriptionErrors_bad:
  assumes "\<not> descriptionRuleOk v"
  shows "\<exists>m. descriptionErrors v = [m] \<and> str_includes m (fieldWord FDescription)"
proof -
  have "descriptionErrors v = [msgDescriptionRequired] \<or> descriptionErrors v = [msgDescriptionMin]
        \<or> descriptionErrors v = [msgDescriptionMax]"
    using assms unfolding descriptionErrors_def descriptionRuleOk_def by (cases v) auto
  then show ?thesis using mark_description by auto
qed

lemma categoryErrors_ok: "categoryErrors v = [] \<longleftrightarrow> categoryRuleOk v"
  unfolding categoryErrors_def categoryRuleOk_def by (cases v) auto

lemma categoryErrors_bad:
  assumes "\<not> categoryRuleOk v"
  shows "\<exists>m. categoryErrors v = [m] \<and> str_includes m (fieldWord FCategory)"
proof -
  have "categoryErrors v = [msgCategoryRequired]"
    using assms unfolding categoryErrors_def categoryRuleOk_def by (cases v) auto
  then show ?thesis using mark_category by auto
qed

lemma priceErrors_ok: "priceErrors v = [] \<longleftrightarrow> priceRuleOk v"
proof (cases v)
  case (JNum n)
  then show ?thesis
    unfolding priceErrors_def priceRuleOk_def isNaN_def jsGreater_def
    by (cases n) auto
qed (simp_all add: priceErrors_def priceRuleOk_def)

lemma priceErrors_cases:
  "priceErrors v = [] \<or> priceErrors v = [msgPriceInvalid] \<or> priceErrors v = [msgPriceNegative]
   \<or> priceErrors v = [msgPriceMax]"
  unfolding priceErrors_def by simp

lemma priceErrors_bad:
  assumes "\<not> priceRuleOk v"
  shows "\<exists>m. priceErrors v = [m] \<and> str_includes m (fieldWord FPrice)"
  using assms priceErrors_cases [of v] mark_price by (auto simp: priceErrors_ok)

lemma block_length:
  "length (nameErrors v) = (if nameRuleOk v then 0 else 1)"
  "length (descriptionErrors v) = (if descriptionRuleOk v then 0 else 1)"
  "length (priceErrors v) = (if priceRuleOk v then 0 else 1)"
  "length (categoryErrors v) = (if categoryRuleOk v then 0 else 1)"
  using nameErrors_ok [of v] nameErrors_bad [of v]
    descriptionErrors_ok [of v] descriptionErrors_bad [of v]
    priceErrors_ok [of v] priceErrors_bad [of v]
    categoryErrors_ok [of v] categoryErrors_bad [of v]
  by auto

text \<open>
  C1. \<^verbatim>\<open>validateProductData\<close> is a total function of its argument (a HOL
  function) and reports every violated rule at once. For an object, with the four
  fields read from it: the result is valid exactly when the error list is empty,
  which is exactly when the four rules hold; every field whose rule is violated
  has a message carrying the word of that field in the list, whatever the other
  fields are; and the list has one message per violated rule.
\<close>

theorem validateProductData_reports_every_violation:
  fixes fs :: "(jsstring \<times> jsval) list"
  defines "v \<equiv> validateProductData (JObj fs)"
    and "name \<equiv> getProp (JObj fs) (str ''name'')"
    and "description \<equiv> getProp (JObj fs) (str ''description'')"
    and "price \<equiv> getProp (JObj fs) (str ''price'')"
    and "category \<equiv> getProp (JObj fs) (str ''category'')"
  shows
    "(isValid v \<longleftrightarrow> errors v = []) \<and>
     (isValid v \<longleftrightarrow>
        nameRuleOk name \<and> descriptionRuleOk description \<and> priceRuleOk price
        \<and> categoryRuleOk category) \<and>
     (\<not> nameRuleOk name \<longrightarrow>
        \<not> isValid v \<and> (\<exists>m \<in> set (errors v). str_includes m (fieldWord FName))) \<and>
     (\<not> descriptionRuleOk description \<longrightarrow>
        \<not> isValid v \<and> (\<exists>m \<in> set (errors v). str_includes m (fieldWord FDescription))) \<and>
     (\<not> priceRuleOk price \<longrightarrow>
        \<not> isValid v \<and> (\<exists>m \<in> set (errors v). str_includes m (fieldWord FPrice))) \<and>
     (\<not> categoryRuleOk category \<longrightarrow>
        \<not> isValid v \<and> (\<exists>m \<in> set (errors v). str_includes m (fieldWord FCategory))) \<and>
     length (errors v) =
       length (filter Not [nameRuleOk name, descriptionRuleOk description,
                           priceRuleOk price, categoryRuleOk category])"
proof -
  have e: "errors v = nameErrors name @ descriptionErrors description @
             priceErrors price @ categoryErrors category"
    and i: "isValid v = (errors v = [])"
    unfolding v_def name_def description_def price_def category_def
    by (simp_all add: validate_object Let_def)
  have ok: "isValid v \<longleftrightarrow>
        nameRuleOk name \<and> descriptionRuleOk description \<and> priceRuleOk price
        \<and> categoryRuleOk category"
    unfolding i e
    by (simp add: nameErrors_ok descriptionErrors_ok priceErrors_ok categoryErrors_ok)
  have n: "\<exists>m \<in> set (errors v). str_includes m (fieldWord FName)" if "\<not> nameRuleOk name"
    using nameErrors_bad [OF that] unfolding e by auto
  have d: "\<exists>m \<in> set (errors v). str_includes m (fieldWord FDescription)"
    if "\<not> descriptionRuleOk description"
    using descriptionErrors_bad [OF that] unfolding e by auto
  have p: "\<exists>m \<in> set (errors v). str_includes m (fieldWord FPrice)" if "\<not> priceRuleOk price"
    using priceErrors_bad [OF that] unfolding e by auto
  have c: "\<exists>m \<in> set (errors v). str_includes m (fieldWord FCategory)"
    if "\<not> categoryRuleOk category"
    using categoryErrors_bad [OF that] unfolding e by auto
  have l: "length (errors v) =
       length (filter Not [nameRuleOk name, descriptionRuleOk description,
                           priceRuleOk price, categoryRuleOk category])"
    unfolding e by (simp add: block_length)
  from i ok n d p c l show ?thesis by blast
qed

lemma getProp_productObject:
  "getProp (productObject n d p c) (str ''name'') = n"
  "getProp (productObject n d p c) (str ''description'') = d"
  "getProp (productObject n d p c) (str ''price'') = p"
  "getProp (productObject n d p c) (str ''category'') = c"
  by (simp_all add: productObject_def str_def)

lemma validate_productObject:
  "validateProductData (productObject n d p c) =
     (let es = nameErrors n @ descriptionErrors d @ priceErrors p @ categoryErrors c
      in \<lparr>isValid = (es = []), errors = es\<rparr>)"
  using validate_object [of "[(str ''name'', n), (str ''description'', d),
           (str ''price'', p), (str ''category'', c)]"]
    getProp_productObject [of n d p c]
  by (simp add: productObject_def)

lemma trim_plain:
  "s \<noteq> [] \<Longrightarrow> \<not> isWhiteSpace (hd s) \<Longrightarrow> \<not> isWhiteSpace (last s) \<Longrightarrow> trim s = s"
proof -
  assume s: "s \<noteq> []" and h: "\<not> isWhiteSpace (hd s)" and l: "\<not> isWhiteSpace (last s)"
  have keep: "dropWhile isWhiteSpace t = t" if "t \<noteq> []" "\<not> isWhiteSpace (hd t)" for t
    using that by (cases t) auto
  have "dropWhile isWhiteSpace (rev s) = rev s"
    using s l by (intro keep) (simp_all add: hd_rev)
  then show ?thesis
    using keep [OF s h] by (simp add: trim_def)
qed

lemma rule_examples:
  "nameRuleOk (JStr (str ''AB''))"
  "descriptionRuleOk (JStr (str ''0123456789''))"
  "priceRuleOk (JNum (Fin 0))"
  "categoryRuleOk (JStr (str ''x''))"
  "\<not> nameRuleOk (JStr [])"
  "\<not> nameRuleOk (JStr (str ''A''))"
  "\<not> nameRuleOk (JStr (replicate 101 97))"
  "\<not> descriptionRuleOk (JStr [])"
  "\<not> descriptionRuleOk (JStr (str ''012345678''))"
  "\<not> priceRuleOk (JNum (Fin (- 1)))"
  "\<not> priceRuleOk (JNum (Fin 1000000))"
  "\<not> categoryRuleOk (JStr [])"
  by (simp_all add: nameRuleOk_def descriptionRuleOk_def priceRuleOk_def categoryRuleOk_def
      maxPrice_def str_def trim_plain isWhiteSpace_def)

lemma block_examples:
  "nameErrors (JStr (str ''AB'')) = []"
  "descriptionErrors (JStr (str ''0123456789'')) = []"
  "priceErrors (JNum (Fin 0)) = []"
  "categoryErrors (JStr (str ''x'')) = []"
  "nameErrors (JStr []) = [msgNameRequired]"
  "nameErrors (JStr (str ''A'')) = [msgNameMin]"
  "nameErrors (JStr (replicate 101 97)) = [msgNameMax]"
  "descriptionErrors (JStr []) = [msgDescriptionRequired]"
  "descriptionErrors (JStr (str ''012345678'')) = [msgDescriptionMin]"
  "priceErrors (JNum (Fin (- 1))) = [msgPriceNegative]"
  "priceErrors (JNum (Fin 1000000)) = [msgPriceMax]"
  "categoryErrors (JStr []) = [msgCategoryRequired]"
  by (simp_all add: nameErrors_def descriptionErrors_def priceErrors_def categoryErrors_def
      isNaN_def jsGreater_def maxPrice_def str_def trim_plain isWhiteSpace_def)

theorem validateProductData_reports_every_violation_witness:
  "isValid (validateProductData (productObject (JStr (str ''AB'')) (JStr (str ''0123456789''))
      (JNum (Fin 0)) (JStr (str ''x'')))) \<and>
   errors (validateProductData (productObject (JStr (str ''AB'')) (JStr (str ''0123456789''))
      (JNum (Fin 0)) (JStr (str ''x'')))) = [] \<and>
   \<not> isValid (validateProductData (productObject (JStr []) (JStr (str ''012345678''))
      (JNum (Fin 1000000)) (JStr []))) \<and>
   length (errors (validateProductData (productObject (JStr []) (JStr (str ''012345678''))
      (JNum (Fin 1000000)) (JStr [])))) = 4 \<and>
   (\<exists>m \<in> set (errors (validateProductData (productObject (JStr []) (JStr (str ''012345678''))
      (JNum (Fin 1000000)) (JStr [])))). str_includes m (fieldWord FPrice))"
  using validateProductData_reports_every_violation
      [of "[(str ''name'', JStr (str ''AB'')), (str ''description'', JStr (str ''0123456789'')),
           (str ''price'', JNum (Fin 0)), (str ''category'', JStr (str ''x''))]"]
    validateProductData_reports_every_violation
      [of "[(str ''name'', JStr []), (str ''description'', JStr (str ''012345678'')),
           (str ''price'', JNum (Fin 1000000)), (str ''category'', JStr [])]"]
  unfolding productObject_def [symmetric] getProp_productObject
  by (auto simp: rule_examples)

lemma validateProductData_examples:
  "validateProductData (productObject (JStr (str ''AB'')) (JStr (str ''0123456789''))
      (JNum (Fin 0)) (JStr (str ''x''))) = \<lparr>isValid = True, errors = []\<rparr>"
  "validateProductData (productObject (JStr []) (JStr (str ''0123456789''))
      (JNum (Fin 0)) (JStr (str ''x''))) = \<lparr>isValid = False, errors = [msgNameRequired]\<rparr>"
  "validateProductData (productObject (JStr (str ''A'')) (JStr (str ''0123456789''))
      (JNum (Fin 0)) (JStr (str ''x''))) = \<lparr>isValid = False, errors = [msgNameMin]\<rparr>"
  "validateProductData (productObject (JStr (replicate 101 97)) (JStr (str ''0123456789''))
      (JNum (Fin 0)) (JStr (str ''x''))) = \<lparr>isValid = False, errors = [msgNameMax]\<rparr>"
  "validateProductData (productObject (JStr (str ''AB'')) (JStr [])
      (JNum (Fin 0)) (JStr (str ''x''))) = \<lparr>isValid = False, errors = [msgDescriptionRequired]\<rparr>"
  "validateProductData (productObject (JStr (str ''AB'')) (JStr (str ''012345678''))
      (JNum (Fin 0)) (JStr (str ''x''))) = \<lparr>isValid = False, errors = [msgDescriptionMin]\<rparr>"
  "validateProductData (productObject (JStr (str ''AB'')) (JStr (str ''0123456789''))
      (JNum (Fin (- 1))) (JStr (str ''x''))) = \<lparr>isValid = False, errors = [msgPriceNegative]\<rparr>"
  "validateProductData (productObject (JStr (str ''AB'')) (JStr (str ''0123456789''))
      (JNum (Fin 1000000)) (JStr (str ''x''))) = \<lparr>isValid = False, errors = [msgPriceMax]\<rparr>"
  "validateProductData (productObject (JStr (str ''AB'')) (JStr (str ''0123456789''))
      (JNum (Fin 0)) (JStr [])) = \<lparr>isValid = False, errors = [msgCategoryRequired]\<rparr>"
  "validateProductData (productObject (JStr []) (JStr (str ''012345678''))
      (JNum (Fin 1000000)) (JStr [])) =
     \<lparr>isValid = False,
      errors = [msgNameRequired, msgDescriptionMin, msgPriceMax, msgCategoryRequired]\<rparr>"
  unfolding validate_productObject block_examples by simp_all

section \<open>Properties of the store adapter\<close>

lemma createProduct_not_object:
  "\<not> truthy pd \<or> typeOf pd \<noteq> TObject \<Longrightarrow>
   createProduct addDoc pd = \<lparr>calls = [], result = Inl (Error msgDataRequired)\<rparr>"
  unfolding createProduct_def by simp

lemma createProduct_object:
  "createProduct addDoc (JObj fs) =
     (case fieldError (JObj fs) of
        Some m \<Rightarrow> \<lparr>calls = [], result = Inl (Error m)\<rparr>
      | None \<Rightarrow>
          \<lparr>calls = [AddDoc COLLECTION_NAME (savedFields (JObj fs) @
                      [(str ''createdAt'', ServerTimestamp), (str ''updatedAt'', ServerTimestamp)])],
           result = (case addDoc COLLECTION_NAME (savedFields (JObj fs) @
                      [(str ''createdAt'', ServerTimestamp), (str ''updatedAt'', ServerTimestamp)]) of
                       Inl code \<Rightarrow> Inl (StoreError code) | Inr docId \<Rightarrow> Inr docId)\<rparr>)"
  unfolding createProduct_def fieldError_def savedFields_def Let_def
  by simp




lemma deleteProduct_bad_id:
  "\<not> truthy pid \<or> typeOf pid \<noteq> TString \<Longrightarrow>
   deleteProduct deleteDoc pid = \<lparr>calls = [], result = Inl (Error msgIdRequired)\<rparr>"
  unfolding deleteProduct_def by simp





lemma object_cases:
  obtains (object) fs where "pd = JObj fs" | (other) "\<not> truthy pd \<or> typeOf pd \<noteq> TObject"
  by (cases pd) auto







lemma productObject_is_object [simp]:
  "truthy (productObject n d p c)" "typeOf (productObject n d p c) = TObject"
  by (simp_all add: productObject_def)

lemma fieldError_productObject:
  "fieldError (productObject n d p c) =
     (if \<not> truthy n \<or> typeOf n \<noteq> TString \<or> length (trim (asString n)) = 0
      then Some msgNameRequired
      else if \<not> truthy d \<or> typeOf d \<noteq> TString \<or> length (trim (asString d)) = 0
      then Some msgDescriptionRequired
      else if typeOf p \<noteq> TNumber \<or> jsLess (asNumber p) (Fin 0)
      then Some msgPriceNonNegative
      else if \<not> truthy c \<or> typeOf c \<noteq> TString \<or> length (trim (asString c)) = 0
      then Some msgCategoryRequired
      else None)"
  unfolding fieldError_def getProp_productObject Let_def by (rule refl)

lemma savedFields_productObject:
  "savedFields (productObject n d p c) =
     [(str ''name'', FString (trim (asString n))),
      (str ''description'', FString (trim (asString d))),
      (str ''price'', FNumber (asNumber p)),
      (str ''category'', FString (trim (asString c)))]"
  unfolding savedFields_def getProp_productObject parseFloatNumber_def by (rule refl)

lemma trim_examples:
  "trim (str ''AB'') = str ''AB''"
  "trim (str ''0123456789'') = str ''0123456789''"
  "trim (str ''x'') = str ''x''"
  "trim (str ''  '') = []"
  by (simp_all add: trim_plain str_def isWhiteSpace_def trim_empty_iff)

lemma str_nonempty:
  "str ''AB'' \<noteq> []" "str ''0123456789'' \<noteq> []" "str ''x'' \<noteq> []" "str ''  '' \<noteq> []"
  "str ''p1'' \<noteq> []"
  by (simp_all add: str_def)

lemma fieldError_examples:
  "fieldError minimalProduct = None"
  "fieldError nanPriceProduct = None"
  "fieldError blankNameProduct = Some msgNameRequired"
  unfolding minimalProduct_def nanPriceProduct_def blankNameProduct_def fieldError_productObject
  by (simp_all add: trim_examples str_nonempty)

lemma createProduct_productObject:
  "createProduct addDoc (productObject n d p c) =
     (case fieldError (productObject n d p c) of
        Some m \<Rightarrow> \<lparr>calls = [], result = Inl (Error m)\<rparr>
      | None \<Rightarrow>
          \<lparr>calls = [AddDoc COLLECTION_NAME (savedFields (productObject n d p c) @
                      [(str ''createdAt'', ServerTimestamp), (str ''updatedAt'', ServerTimestamp)])],
           result = (case addDoc COLLECTION_NAME (savedFields (productObject n d p c) @
                      [(str ''createdAt'', ServerTimestamp), (str ''updatedAt'', ServerTimestamp)]) of
                       Inl code \<Rightarrow> Inl (StoreError code) | Inr docId \<Rightarrow> Inr docId)\<rparr>)"
  unfolding productObject_def by (rule createProduct_object)







lemma text_check_iff:
  "(\<not> truthy v \<or> typeOf v \<noteq> TString \<or> length (trim (asString v)) = 0) \<longleftrightarrow> \<not> presentText v"
  by (cases v) (auto simp: presentText_def trim_empty_iff list_all_iff)

lemma price_check_iff:
  "v \<noteq> JNum NaN \<Longrightarrow>
   (typeOf v \<noteq> TNumber \<or> jsLess (asNumber v) (Fin 0)) \<longleftrightarrow> \<not> nonNegativeNumber v"
proof (cases v)
  case (JNum n)
  assume "v \<noteq> JNum NaN"
  with JNum show ?thesis by (cases n) (auto simp: nonNegativeNumber_def)
qed (simp_all add: nonNegativeNumber_def)

lemma fieldError_None_iff:
  assumes "getProp pd (str ''price'') \<noteq> JNum NaN"
  shows "fieldError pd = None \<longleftrightarrow>
     presentText (getProp pd (str ''name'')) \<and> presentText (getProp pd (str ''description''))
     \<and> nonNegativeNumber (getProp pd (str ''price''))
     \<and> presentText (getProp pd (str ''category''))"
  unfolding fieldError_def Let_def text_check_iff price_check_iff [OF assms]
  by simp

lemma createProduct_rejects_iff_malformed:
  assumes "getProp pd (str ''price'') \<noteq> JNum NaN"
  shows
    "((\<exists>m. createProduct addDoc pd = \<lparr>calls = [], result = Inl (Error m)\<rparr>) \<longleftrightarrow>
        \<not> wellFormed pd) \<and>
     (wellFormed pd \<longrightarrow>
        createProduct addDoc pd =
          \<lparr>calls = [AddDoc COLLECTION_NAME (savedFields pd @
              [(str ''createdAt'', ServerTimestamp), (str ''updatedAt'', ServerTimestamp)])],
           result = (case addDoc COLLECTION_NAME (savedFields pd @
              [(str ''createdAt'', ServerTimestamp), (str ''updatedAt'', ServerTimestamp)]) of
                       Inl code \<Rightarrow> Inl (StoreError code) | Inr docId \<Rightarrow> Inr docId)\<rparr>)"
proof (cases pd rule: object_cases)
  case other
  then show ?thesis
    by (auto simp: createProduct_not_object wellFormed_def)
next
  case (object fs)
  have w: "wellFormed pd \<longleftrightarrow> fieldError pd = None"
    unfolding fieldError_None_iff [OF assms] wellFormed_def using object by simp
  show ?thesis
    unfolding w using object
    by (cases "fieldError (JObj fs)") (simp_all add: createProduct_object)
qed

text \<open>
  C2. \<^verbatim>\<open>createProduct\<close> at a record whose price is NaN: the record is not
  well formed in the words of the specification (NaN is not a number that is at
  least 0) and the validator rejects it, but \<^verbatim>\<open>createProduct\<close> throws
  nothing, inserts a document with the price NaN and returns the identifier the
  store assigned. For every other input the lemma
  \<open>createProduct_rejects_iff_malformed\<close> above gives the behaviour the
  specification states.
\<close>

theorem createProduct_accepts_NaN_price:
  "\<not> wellFormed nanPriceProduct \<and>
   calls (createProduct acceptingAddDoc nanPriceProduct) =
     [AddDoc COLLECTION_NAME
        [(str ''name'', FString (str ''AB'')),
         (str ''description'', FString (str ''0123456789'')),
         (str ''price'', FNumber NaN),
         (str ''category'', FString (str ''x'')),
         (str ''createdAt'', ServerTimestamp),
         (str ''updatedAt'', ServerTimestamp)]] \<and>
   result (createProduct acceptingAddDoc nanPriceProduct) = Inr (str ''doc1'') \<and>
   \<not> isValid (validateProductData nanPriceProduct)"
proof -
  have "\<not> wellFormed nanPriceProduct"
    by (simp add: wellFormed_def nanPriceProduct_def getProp_productObject nonNegativeNumber_def)
  moreover have "createProduct acceptingAddDoc nanPriceProduct =
     \<lparr>calls = [AddDoc COLLECTION_NAME
        [(str ''name'', FString (str ''AB'')),
         (str ''description'', FString (str ''0123456789'')),
         (str ''price'', FNumber NaN),
         (str ''category'', FString (str ''x'')),
         (str ''createdAt'', ServerTimestamp),
         (str ''updatedAt'', ServerTimestamp)]],
      result = Inr (str ''doc1'')\<rparr>"
    using fieldError_examples(2)
    unfolding nanPriceProduct_def createProduct_productObject savedFields_productObject
    by (simp add: trim_examples acceptingAddDoc_def)
  moreover have "\<not> isValid (validateProductData nanPriceProduct)"
    unfolding nanPriceProduct_def validate_productObject
    by (simp add: priceErrors_def isNaN_def)
  ultimately show ?thesis by simp
qed

theorem createProduct_accepts_NaN_price_witness:
  "calls (createProduct acceptingAddDoc nanPriceProduct) \<noteq> [] \<and>
   result (createProduct acceptingAddDoc nanPriceProduct) \<noteq> Inl (Error msgPriceNonNegative)"
  using createProduct_accepts_NaN_price by simp

section \<open>Properties of the presentation helpers\<close>

lemma str_includes_sublist: "str_includes s t \<longleftrightarrow> sublist t s"
  by (induction s) (auto simp: sublist_Cons_right)

lemma str_includes_empty [simp]: "str_includes s []"
  by (cases s) simp_all

lemma searchProducts_no_text:
  "\<not> truthy v \<or> typeOf v \<noteq> TString \<Longrightarrow> searchProducts lc v ps = ps"
  unfolding searchProducts_def by simp

lemma searchProducts_text:
  "t \<noteq> [] \<Longrightarrow> searchProducts lc (JStr t) ps =
     filter (\<lambda>p. str_includes (lc (p_name p)) (trim (lc t)) \<or>
                 str_includes (lc (p_description p)) (trim (lc t)) \<or>
                 str_includes (lc (p_category p)) (trim (lc t))) ps"
  unfolding searchProducts_def by (simp add: Let_def)

lemma toLowerCaseAscii_white: "list_all isWhiteSpace s \<Longrightarrow> toLowerCaseAscii s = s"
  unfolding toLowerCaseAscii_def list_all_iff
  by (rule map_idI) (auto simp: isWhiteSpace_def)

lemma keepsWhiteSpace_ascii: "keepsWhiteSpace toLowerCaseAscii"
  unfolding keepsWhiteSpace_def by (simp add: toLowerCaseAscii_white)

text \<open>
  C7, as stated, fails: the search text is trimmed before it is matched. The text
  \<^verbatim>\<open>" mesa"\<close> retains a record named \<^verbatim>\<open>"Mesa"\<close>, although the text with
  its leading space is a case-insensitive substring of none of the fields.
\<close>

theorem searchProducts_untrimmed_text_counterexample:
  "mesa \<in> set (searchProducts toLowerCaseAscii (JStr (str '' mesa'')) [mesa]) \<and>
   \<not> caseInsensitiveSubstring toLowerCaseAscii (str '' mesa'') (p_name mesa) \<and>
   \<not> caseInsensitiveSubstring toLowerCaseAscii (str '' mesa'') (p_description mesa) \<and>
   \<not> caseInsensitiveSubstring toLowerCaseAscii (str '' mesa'') (p_category mesa)"
proof -
  have t: "trim (toLowerCaseAscii (str '' mesa'')) = str ''mesa''"
    by (simp add: toLowerCaseAscii_def str_def trim_def isWhiteSpace_def)
  have n: "toLowerCaseAscii (p_name mesa) = str ''mesa''"
    by (simp add: toLowerCaseAscii_def str_def mesa_def)
  have i: "str_includes (str ''mesa'') (str ''mesa'')" and e: "str '' mesa'' \<noteq> []"
    by (simp_all add: str_def)
  have "mesa \<in> set (searchProducts toLowerCaseAscii (JStr (str '' mesa'')) [mesa])"
    by (simp add: searchProducts_text [OF e] t n i)
  moreover have "\<not> caseInsensitiveSubstring toLowerCaseAscii (str '' mesa'') (p_name mesa)"
    "\<not> caseInsensitiveSubstring toLowerCaseAscii (str '' mesa'') (p_description mesa)"
    "\<not> caseInsensitiveSubstring toLowerCaseAscii (str '' mesa'') (p_category mesa)"
    by (simp_all add: caseInsensitiveSubstring_def toLowerCaseAscii_def str_def mesa_def)
  ultimately show ?thesis by simp
qed

text \<open>
  C7, amended. With the empty text \<^verbatim>\<open>searchProducts\<close> returns the list
  unchanged. With any text it returns the records, in their order, for which the
  text is empty or the lower-cased and trimmed text occurs in the lower-cased
  name, description or category; so it returns the empty list when no record is
  matched in this sense.
\<close>

theorem searchProducts_matches_trimmed_text:
  "searchProducts lc (JStr []) ps = ps \<and>
   searchProducts lc (JStr t) ps =
     filter (\<lambda>p. t = [] \<or> sublist (trim (lc t)) (lc (p_name p))
                 \<or> sublist (trim (lc t)) (lc (p_description p))
                 \<or> sublist (trim (lc t)) (lc (p_category p))) ps \<and>
   ((\<forall>p \<in> set ps. \<not> (t = [] \<or> sublist (trim (lc t)) (lc (p_name p))
                 \<or> sublist (trim (lc t)) (lc (p_description p))
                 \<or> sublist (trim (lc t)) (lc (p_category p)))) \<longrightarrow>
      searchProducts lc (JStr t) ps = [])"
proof -
  have e: "searchProducts lc (JStr []) ps = ps"
    by (simp add: searchProducts_no_text)
  have f: "searchProducts lc (JStr t) ps =
     filter (\<lambda>p. t = [] \<or> sublist (trim (lc t)) (lc (p_name p))
                 \<or> sublist (trim (lc t)) (lc (p_description p))
                 \<or> sublist (trim (lc t)) (lc (p_category p))) ps"
  proof (cases "t = []")
    case True
    then show ?thesis by (simp add: e)
  next
    case False
    then show ?thesis by (simp add: searchProducts_text str_includes_sublist)
  qed
  show ?thesis
    unfolding f using e by (simp add: filter_empty_conv)
qed

theorem searchProducts_matches_trimmed_text_witness:
  "searchProducts toLowerCaseAscii (JStr (str '' mesa'')) [mesa] = [mesa] \<and>
   searchProducts toLowerCaseAscii (JStr (str ''silla'')) [mesa] = []"
proof -
  have t: "trim (toLowerCaseAscii (str '' mesa'')) = str ''mesa''"
    "trim (toLowerCaseAscii (str ''silla'')) = str ''silla''"
    by (simp_all add: toLowerCaseAscii_def str_def trim_def isWhiteSpace_def)
  have l: "toLowerCaseAscii (p_name mesa) = str ''mesa''"
    "toLowerCaseAscii (p_description mesa) = str ''mesa de roble''"
    "toLowerCaseAscii (p_category mesa) = str ''hogar''"
    by (simp_all add: toLowerCaseAscii_def str_def mesa_def)
  have s: "sublist (str ''mesa'') (str ''mesa'')"
    "\<not> sublist (str ''silla'') (str ''mesa'')"
    "\<not> sublist (str ''silla'') (str ''mesa de roble'')"
    "\<not> sublist (str ''silla'') (str ''hogar'')"
    unfolding str_includes_sublist [symmetric] by (simp_all add: str_def)
  have n: "str '' mesa'' \<noteq> []" "str ''silla'' \<noteq> []" by (simp_all add: str_def)
  show ?thesis
    using searchProducts_matches_trimmed_text [of toLowerCaseAscii "[mesa]" "str '' mesa''"]
      searchProducts_matches_trimmed_text [of toLowerCaseAscii "[mesa]" "str ''silla''"]
    unfolding t by (simp add: s n l)
qed

text \<open>
  C9. For a non-empty search text of white space only, the lower-cased and trimmed
  text is empty, and \<^verbatim>\<open>searchProducts\<close> returns the whole list in its order,
  as it does for the empty text.
\<close>

theorem searchProducts_whitespace_text:
  assumes "keepsWhiteSpace lc" and "t \<noteq> []" and "list_all isWhiteSpace t"
  shows "trim (lc t) = [] \<and> searchProducts lc (JStr t) ps = ps \<and>
         searchProducts lc (JStr t) ps = searchProducts lc (JStr []) ps"
proof -
  have "list_all isWhiteSpace (lc t)"
    using assms(1,3) unfolding keepsWhiteSpace_def by blast
  then have e: "trim (lc t) = []"
    by (simp add: trim_empty_iff list_all_iff)
  have "searchProducts lc (JStr t) ps = ps"
    using assms(2) by (simp add: searchProducts_text e)
  then show ?thesis
    using e by (simp add: searchProducts_no_text)
qed

theorem searchProducts_whitespace_text_witness:
  "searchProducts toLowerCaseAscii (JStr [9, 32]) [mesa, mesa\<lparr>p_id := str ''p2''\<rparr>] =
     [mesa, mesa\<lparr>p_id := str ''p2''\<rparr>]"
proof -
  have "list_all isWhiteSpace [9, 32]" by (simp add: isWhiteSpace_def)
  from searchProducts_whitespace_text [OF keepsWhiteSpace_ascii _ this,
      of "[mesa, mesa\<lparr>p_id := str ''p2''\<rparr>]"]
  show ?thesis by simp
qed

lemma getProductStats_empty:
  "getProductStats None =
     \<lparr>total = 0, averagePrice = Fin 0, categories = Map.empty, totalValue = Fin 0\<rparr>"
  "getProductStats (Some []) =
     \<lparr>total = 0, averagePrice = Fin 0, categories = Map.empty, totalValue = Fin 0\<rparr>"
  by (simp_all add: getProductStats_def)

lemma foldl_statsStep:
  "foldl statsStep (a, b, c) ps =
     (foldl jsAdd a (map p_price ps), foldl jsAdd b (map p_price ps),
      foldl countCategory c (map p_category ps))"
  by (induction ps arbitrary: a b c) (simp_all add: statsStep_def)

lemma getProductStats_nonempty:
  "ps \<noteq> [] \<Longrightarrow> getProductStats (Some ps) =
     \<lparr>total = length ps,
      averagePrice = jsDiv (foldl jsAdd (Fin 0) (map p_price ps)) (Fin (real (length ps))),
      categories = foldl countCategory Map.empty (map p_category ps),
      totalValue = foldl jsAdd (Fin 0) (map p_price ps)\<rparr>"
  by (simp add: getProductStats_def foldl_statsStep)

lemma foldl_jsAdd_finite:
  "list_all isFinite ns \<Longrightarrow> foldl jsAdd (Fin a) ns = Fin (a + sum_list (map realOf ns))"
proof (induction ns arbitrary: a)
  case Nil
  then show ?case by simp
next
  case (Cons n ns)
  then obtain x where "n = Fin x" by (cases n) (simp_all add: isFinite_def)
  with Cons show ?case by (simp add: add.assoc)
qed

lemma countCategory_countMap:
  assumes "k \<notin> set objectPrototypeKeys"
  shows "countCategory (countMap seen) k = countMap (seen @ [k])"
proof (cases "k \<in> set seen")
  case False
  then show ?thesis
    using assms by (auto simp: countCategory_def countMap_def fun_eq_iff)
next
  case True
  then have "count_list seen k \<noteq> 0" by (simp add: count_list_0_iff)
  with True show ?thesis
    by (auto simp: countCategory_def countMap_def fun_eq_iff)
qed

lemma foldl_countCategory:
  "set ks \<inter> set objectPrototypeKeys = {} \<Longrightarrow>
   foldl countCategory (countMap seen) ks = countMap (seen @ ks)"
proof (induction ks arbitrary: seen)
  case Nil
  then show ?case by simp
next
  case (Cons k ks)
  then have "k \<notin> set objectPrototypeKeys" and "set ks \<inter> set objectPrototypeKeys = {}"
    by auto
  with Cons.IH [of "seen @ [k]"] show ?case
    by (simp add: countCategory_countMap)
qed

lemma countMap_Nil: "countMap [] = Map.empty"
  by (simp add: countMap_def fun_eq_iff)

lemma getProductStats_general:
  assumes "ps \<noteq> []"
  shows "total (getProductStats (Some ps)) = length ps"
    and "list_all isFinite (map p_price ps) \<Longrightarrow>
         totalValue (getProductStats (Some ps)) = Fin (sum_list (map (realOf \<circ> p_price) ps))"
    and "list_all isFinite (map p_price ps) \<Longrightarrow>
         averagePrice (getProductStats (Some ps)) =
           Fin (sum_list (map (realOf \<circ> p_price) ps) / real (length ps))"
    and "set (map p_category ps) \<inter> set objectPrototypeKeys = {} \<Longrightarrow>
         categories (getProductStats (Some ps)) = countMap (map p_category ps)"
  using assms foldl_countCategory [of "map p_category ps" "[]"]
  by (simp_all add: getProductStats_nonempty foldl_jsAdd_finite countMap_Nil comp_def)

lemma getProductStats_three:
  "getProductStats (Some [item 10 ''A'', item 20 ''A'', item 30 ''B'']) =
     \<lparr>total = 3, averagePrice = Fin 20, categories = [str ''A'' \<mapsto> Fin 2, str ''B'' \<mapsto> Fin 1],
      totalValue = Fin 60\<rparr>"
  by (simp add: getProductStats_nonempty item_def countCategory_def objectPrototypeKeys_def
      str_def)

text \<open>
  C8. \<^verbatim>\<open>getProductStats\<close> at a list whose one record has the category
  \<^verbatim>\<open>"constructor"\<close>: the count map gives this category 1, the code gives it
  NaN, since the first read of the key finds the inherited constructor function.
  A second record of the category then sets the key to 1, and a record of the
  category \<^verbatim>\<open>"__proto__"\<close> is not counted at all. For the empty list, for
  the three records of the specification, and for every list whose categories are
  not names of \<^verbatim>\<open>Object.prototype\<close>, the lemmas above give the statistics the
  specification states.
\<close>

theorem getProductStats_inherited_key:
  "categories (getProductStats (Some [item 10 ''constructor''])) (str ''constructor'') = Some NaN \<and>
   countMap (map p_category [item 10 ''constructor'']) (str ''constructor'') = Some (Fin 1) \<and>
   categories (getProductStats (Some [item 10 ''constructor'', item 20 ''constructor'']))
     (str ''constructor'') = Some (Fin 1) \<and>
   categories (getProductStats (Some [item 10 ''__proto__''])) = Map.empty"
  by (simp add: getProductStats_nonempty item_def countCategory_def objectPrototypeKeys_def
      countMap_def str_def)

theorem getProductStats_inherited_key_witness:
  "categories (getProductStats (Some [item 10 ''constructor''])) (str ''constructor'')
     \<noteq> Some (Fin 1)"
  using getProductStats_inherited_key by simp

section \<open>Properties of the controller\<close>

lemma lowered_messages:
  "str_includes (toLowerCaseAscii msgNameRequired) (fieldWord FName)"
  "str_includes (toLowerCaseAscii msgNameMin) (fieldWord FName)"
  "str_includes (toLowerCaseAscii msgNameMax) (fieldWord FName)"
  by (simp_all add: toLowerCaseAscii_def msgNameRequired_def msgNameMin_def msgNameMax_def
      str_def)

lemma lowered_description:
  "\<not> str_includes (toLowerCaseAscii msgDescriptionRequired) (fieldWord FName)"
  "\<not> str_includes (toLowerCaseAscii msgDescriptionMin) (fieldWord FName)"
  "\<not> str_includes (toLowerCaseAscii msgDescriptionMax) (fieldWord FName)"
  "str_includes (toLowerCaseAscii msgDescriptionRequired) (fieldWord FDescription)"
  "str_includes (toLowerCaseAscii msgDescriptionMin) (fieldWord FDescription)"
  "str_includes (toLowerCaseAscii msgDescriptionMax) (fieldWord FDescription)"
  by (simp_all add: toLowerCaseAscii_def msgDescriptionRequired_def msgDescriptionMin_def
      msgDescriptionMax_def str_def)

lemma lowered_price:
  "\<not> str_includes (toLowerCaseAscii msgPriceInvalid) (fieldWord FName)"
  "\<not> str_includes (toLowerCaseAscii msgPriceNegative) (fieldWord FName)"
  "\<not> str_includes (toLowerCaseAscii msgPriceMax) (fieldWord FName)"
  "\<not> str_includes (toLowerCaseAscii msgPriceInvalid) (fieldWord FDescription)"
  "\<not> str_includes (toLowerCaseAscii msgPriceNegative) (fieldWord FDescription)"
  "\<not> str_includes (toLowerCaseAscii msgPriceMax) (fieldWord FDescription)"
  "str_includes (toLowerCaseAscii msgPriceInvalid) (fieldWord FPrice)"
  "str_includes (toLowerCaseAscii msgPriceNegative) (fieldWord FPrice)"
  "str_includes (toLowerCaseAscii msgPriceMax) (fieldWord FPrice)"
  by (simp_all add: toLowerCaseAscii_def msgPriceInvalid_def msgPriceNegative_def
      msgPriceMax_def str_def)

lemma lowered_category:
  "\<not> str_includes (toLowerCaseAscii msgCategoryRequired) (fieldWord FName)"
  "\<not> str_includes (toLowerCaseAscii msgCategoryRequired) (fieldWord FDescription)"
  "\<not> str_includes (toLowerCaseAscii msgCategoryRequired) (fieldWord FPrice)"
  "str_includes (toLowerCaseAscii msgCategoryRequired) (fieldWord FCategory)"
  by (simp_all add: toLowerCaseAscii_def msgCategoryRequired_def str_def)

lemma lowersMessages_D:
  assumes "lowersMessages lc"
  shows "lc msgNameRequired = toLowerCaseAscii msgNameRequired"
    "lc msgNameMin = toLowerCaseAscii msgNameMin"
    "lc msgNameMax = toLowerCaseAscii msgNameMax"
    "lc msgDescriptionRequired = toLowerCaseAscii msgDescriptionRequired"
    "lc msgDescriptionMin = toLowerCaseAscii msgDescriptionMin"
    "lc msgDescriptionMax = toLowerCaseAscii msgDescriptionMax"
    "lc msgPriceInvalid = toLowerCaseAscii msgPriceInvalid"
    "lc msgPriceNegative = toLowerCaseAscii msgPriceNegative"
    "lc msgPriceMax = toLowerCaseAscii msgPriceMax"
    "lc msgCategoryRequired = toLowerCaseAscii msgCategoryRequired"
  using assms unfolding lowersMessages_def validatorMessages_def by simp_all

lemma annotate_messages:
  assumes "lowersMessages lc"
  shows "annotate lc msgNameRequired = [ShowFieldError FName msgNameRequired]"
    "annotate lc msgNameMin = [ShowFieldError FName msgNameMin]"
    "annotate lc msgNameMax = [ShowFieldError FName msgNameMax]"
    "annotate lc msgDescriptionRequired = [ShowFieldError FDescription msgDescriptionRequired]"
    "annotate lc msgDescriptionMin = [ShowFieldError FDescription msgDescriptionMin]"
    "annotate lc msgDescriptionMax = [ShowFieldError FDescription msgDescriptionMax]"
    "annotate lc msgPriceInvalid = [ShowFieldError FPrice msgPriceInvalid]"
    "annotate lc msgPriceNegative = [ShowFieldError FPrice msgPriceNegative]"
    "annotate lc msgPriceMax = [ShowFieldError FPrice msgPriceMax]"
    "annotate lc msgCategoryRequired = [ShowFieldError FCategory msgCategoryRequired]"
  unfolding annotate_def lowersMessages_D [OF assms]
  using lowered_messages lowered_description lowered_price lowered_category
  by simp_all

lemma lowersMessages_ascii: "lowersMessages toLowerCaseAscii"
  by (simp add: lowersMessages_def validatorMessages_def)

lemma nameErrors_cases:
  "nameErrors v = [] \<or> nameErrors v = [msgNameRequired] \<or> nameErrors v = [msgNameMin]
   \<or> nameErrors v = [msgNameMax]"
  unfolding nameErrors_def by simp

lemma descriptionErrors_cases:
  "descriptionErrors v = [] \<or> descriptionErrors v = [msgDescriptionRequired]
   \<or> descriptionErrors v = [msgDescriptionMin] \<or> descriptionErrors v = [msgDescriptionMax]"
  unfolding descriptionErrors_def by simp

lemma categoryErrors_cases:
  "categoryErrors v = [] \<or> categoryErrors v = [msgCategoryRequired]"
  unfolding categoryErrors_def by simp

lemma annotate_blocks:
  assumes "lowersMessages lc"
  shows "concat (map (annotate lc) (nameErrors v)) = map (ShowFieldError FName) (nameErrors v)"
    "concat (map (annotate lc) (descriptionErrors v)) =
       map (ShowFieldError FDescription) (descriptionErrors v)"
    "concat (map (annotate lc) (priceErrors v)) = map (ShowFieldError FPrice) (priceErrors v)"
    "concat (map (annotate lc) (categoryErrors v)) =
       map (ShowFieldError FCategory) (categoryErrors v)"
  using nameErrors_cases [of v] descriptionErrors_cases [of v] priceErrors_cases [of v]
    categoryErrors_cases [of v] annotate_messages [OF assms]
  by auto

lemma annotate_not_remote: "\<forall>e \<in> set (annotate lc m). \<not> isRemote e"
  by (simp add: annotate_def)

lemma showValidationErrors_not_remote: "\<forall>e \<in> set (showValidationErrors lc es). \<not> isRemote e"
  using annotate_not_remote by (auto simp: showValidationErrors_def)

lemma validate_getFormData:
  "validateProductData (getFormData pf form) =
     (let es = nameErrors (JStr (nameInput form)) @ descriptionErrors (JStr (descriptionInput form))
               @ priceErrors (JNum (pf (priceInput form)))
               @ categoryErrors (JStr (categorySelect form))
      in \<lparr>isValid = (es = []), errors = es\<rparr>)"
  unfolding getFormData_def by (rule validate_productObject)

text \<open>
  C4. When \<^verbatim>\<open>validateProductData\<close> reports the data of the form invalid,
  \<^verbatim>\<open>handleFormSubmit\<close> leaves the state as it is, in creating mode and in
  editing mode alike; its effects are the messages of
  \<^verbatim>\<open>showValidationErrors\<close> between \<^verbatim>\<open>preventDefault\<close> and the
  reset of the submit button, and none of them is a call of
  \<^verbatim>\<open>createProduct\<close>, of \<^verbatim>\<open>updateProduct\<close> or of the store. With
  a lower-casing that treats the messages as the language does, each field that
  breaks its rule is annotated with its message, in the order name, description,
  price, category.
\<close>

theorem handleFormSubmit_blocks_invalid:
  assumes "\<not> isValid (validateProductData (getFormData parseFloat form))"
  shows
    "fst (handleFormSubmit lc parseFloat addDoc updateDoc st form) = st \<and>
     snd (handleFormSubmit lc parseFloat addDoc updateDoc st form) =
       [PreventDefault]
       @ showValidationErrors lc (errors (validateProductData (getFormData parseFloat form)))
       @ [SetSubmitButtonLoading False] \<and>
     (\<forall>e \<in> set (snd (handleFormSubmit lc parseFloat addDoc updateDoc st form)). \<not> isRemote e) \<and>
     (lowersMessages lc \<longrightarrow>
        snd (handleFormSubmit lc parseFloat addDoc updateDoc st form) =
          [PreventDefault]
          @ map (ShowFieldError FName) (nameErrors (JStr (nameInput form)))
          @ map (ShowFieldError FDescription) (descriptionErrors (JStr (descriptionInput form)))
          @ map (ShowFieldError FPrice) (priceErrors (JNum (parseFloat (priceInput form))))
          @ map (ShowFieldError FCategory) (categoryErrors (JStr (categorySelect form)))
          @ [ShowToast (Text msgFixErrors) TError, SetSubmitButtonLoading False])"
proof -
  have h: "handleFormSubmit lc parseFloat addDoc updateDoc st form =
      (st, [PreventDefault]
       @ showValidationErrors lc (errors (validateProductData (getFormData parseFloat form)))
       @ [SetSubmitButtonLoading False])"
    using assms unfolding handleFormSubmit_def Let_def by (simp only: simp_thms if_True)
  have r: "\<forall>e \<in> set (snd (handleFormSubmit lc parseFloat addDoc updateDoc st form)). \<not> isRemote e"
    unfolding h using showValidationErrors_not_remote [of lc] by simp
  have a: "showValidationErrors lc (errors (validateProductData (getFormData parseFloat form))) =
          map (ShowFieldError FName) (nameErrors (JStr (nameInput form)))
          @ map (ShowFieldError FDescription) (descriptionErrors (JStr (descriptionInput form)))
          @ map (ShowFieldError FPrice) (priceErrors (JNum (parseFloat (priceInput form))))
          @ map (ShowFieldError FCategory) (categoryErrors (JStr (categorySelect form)))
          @ [ShowToast (Text msgFixErrors) TError]" if "lowersMessages lc"
    unfolding validate_getFormData showValidationErrors_def
    by (simp add: Let_def annotate_blocks [OF that])
  show ?thesis
    using r a unfolding h by simp
qed

lemma valid_passes_checks:
  assumes "isValid (validateProductData (productObject n d p c))"
  shows "fieldError (productObject n d p c) = None"
proof -
  have e: "nameErrors n = []" "descriptionErrors d = []" "priceErrors p = []"
    "categoryErrors c = []"
    using assms by (simp_all add: validate_productObject Let_def)
  have "\<not> (\<not> truthy n \<or> typeOf n \<noteq> TString \<or> length (trim (asString n)) = 0)"
    using e(1) unfolding nameErrors_def by (simp split: if_splits)
  moreover have "\<not> (\<not> truthy d \<or> typeOf d \<noteq> TString \<or> length (trim (asString d)) = 0)"
    using e(2) unfolding descriptionErrors_def by (simp split: if_splits)
  moreover have "\<not> (typeOf p \<noteq> TNumber \<or> jsLess (asNumber p) (Fin 0))"
    using e(3) unfolding priceErrors_def by (simp split: if_splits)
  moreover have "\<not> (\<not> truthy c \<or> typeOf c \<noteq> TString \<or> length (trim (asString c)) = 0)"
    using e(4) unfolding categoryErrors_def by (simp split: if_splits)
  ultimately show ?thesis
    unfolding fieldError_productObject by simp
qed

lemma handleFormSubmit_valid_creating:
  assumes "isValid (validateProductData (getFormData parseFloat form))"
    and "\<not> isEditing st"
  shows "\<exists>d rest. snd (handleFormSubmit lc parseFloat addDoc updateDoc st form) =
     [PreventDefault, SetSubmitButtonLoading True,
      CallCreateProduct (getFormData parseFloat form), Store (AddDoc COLLECTION_NAME d)] @ rest"
proof -
  have "fieldError (getFormData parseFloat form) = None"
    using assms(1) unfolding getFormData_def by (rule valid_passes_checks)
  then have "\<exists>d r. createProduct addDoc (getFormData parseFloat form) =
      \<lparr>calls = [AddDoc COLLECTION_NAME d], result = r\<rparr>"
    unfolding getFormData_def createProduct_productObject by simp
  then obtain d r where c: "createProduct addDoc (getFormData parseFloat form) =
      \<lparr>calls = [AddDoc COLLECTION_NAME d], result = r\<rparr>"
    by blast
  show ?thesis
    using assms unfolding handleFormSubmit_def Let_def c
    by (cases r) (simp_all add: clearForm_def exitEditMode_def)
qed

lemma priceErrors_NaN: "priceErrors (JNum NaN) = [msgPriceInvalid]"
  by (simp add: priceErrors_def isNaN_def)

lemma sampleParseFloat_examples:
  "sampleParseFloat (str ''abc'') = NaN" "sampleParseFloat (str ''0'') = Fin 0"
  by (simp_all add: sampleParseFloat_def str_def)

lemma blankForm_errors:
  "validateProductData (getFormData sampleParseFloat blankForm) =
     \<lparr>isValid = False,
      errors = [msgNameRequired, msgDescriptionMin, msgPriceInvalid, msgCategoryRequired]\<rparr>"
  unfolding validate_getFormData
  by (simp add: blankForm_def sampleParseFloat_examples block_examples priceErrors_NaN)

theorem handleFormSubmit_blocks_invalid_witness:
  "snd (handleFormSubmit toLowerCaseAscii sampleParseFloat acceptingAddDoc acceptingUpdateDoc
          initialState blankForm) =
     [PreventDefault, ShowFieldError FName msgNameRequired,
      ShowFieldError FDescription msgDescriptionMin, ShowFieldError FPrice msgPriceInvalid,
      ShowFieldError FCategory msgCategoryRequired, ShowToast (Text msgFixErrors) TError,
      SetSubmitButtonLoading False] \<and>
   snd (handleFormSubmit toLowerCaseAscii sampleParseFloat acceptingAddDoc acceptingUpdateDoc
          editingState blankForm) =
     [PreventDefault, ShowFieldError FName msgNameRequired,
      ShowFieldError FDescription msgDescriptionMin, ShowFieldError FPrice msgPriceInvalid,
      ShowFieldError FCategory msgCategoryRequired, ShowToast (Text msgFixErrors) TError,
      SetSubmitButtonLoading False] \<and>
   fst (handleFormSubmit toLowerCaseAscii sampleParseFloat acceptingAddDoc acceptingUpdateDoc
          editingState blankForm) = editingState"
proof -
  have i: "\<not> isValid (validateProductData (getFormData sampleParseFloat blankForm))"
    by (simp add: blankForm_errors)
  have b: "nameErrors (JStr (nameInput blankForm)) = [msgNameRequired]"
    "descriptionErrors (JStr (descriptionInput blankForm)) = [msgDescriptionMin]"
    "priceErrors (JNum (sampleParseFloat (priceInput blankForm))) = [msgPriceInvalid]"
    "categoryErrors (JStr (categorySelect blankForm)) = [msgCategoryRequired]"
    by (simp_all add: blankForm_def sampleParseFloat_examples block_examples priceErrors_NaN)
  note t1 = handleFormSubmit_blocks_invalid [OF i, of toLowerCaseAscii acceptingAddDoc
        acceptingUpdateDoc initialState]
  note t2 = handleFormSubmit_blocks_invalid [OF i, of toLowerCaseAscii acceptingAddDoc
        acceptingUpdateDoc editingState]
  note a1 = t1 [THEN conjunct2, THEN conjunct2, THEN conjunct2, THEN mp,
      OF lowersMessages_ascii, unfolded b]
  note a2 = t2 [THEN conjunct2, THEN conjunct2, THEN conjunct2, THEN mp,
      OF lowersMessages_ascii, unfolded b]
  note a3 = t2 [THEN conjunct1]
  show ?thesis
    unfolding a1 a2 a3 by simp
qed














end
